theory Spec2Isabelle
  imports Main "HOL-Library.Signed_Division"
begin

section \<open>Multilevel feedback scheduler (NachOS-4.0_MP3/code/threads/scheduler.cc)\<close>

text \<open>
  Thread objects live in a store addressed by thread pointers (\<open>tid\<close>); the three
  ready queues hold pointers, as the C++ lists of \<open>Thread *\<close> do. Only the fields
  that scheduler.cc reads or writes are kept. \<open>predictTime\<close> is only ever compared, so its
  type is any linear order. Tick counters and priorities are C \<open>int\<close>s, modelled as
  unbounded integers (no arithmetic in scheduler.cc comes near the 32-bit range for the
  tick counts a simulation reaches).
\<close>

datatype ThreadStatus = JUST_CREATED | RUNNING | READY | BLOCKED | ZOMBIE

datatype IntStatus = IntOff | IntOn

datatype error = AssertionFailed | NullPointer | OutOfBounds

type_synonym tid = nat

record 'p Thread =
  priority :: int
  predictTime :: 'p
  ReadyStartTime :: int
  TimeInReadyQueue :: int
  status :: ThreadStatus

record 'p Kernel =
  L1 :: "tid list"
  L2 :: "tid list"
  L3 :: "tid list"
  heap :: "tid \<Rightarrow> 'p Thread"
  currentThread :: tid
  totalTicks :: int
  preemptive :: bool
  intLevel :: IntStatus

text \<open>\<open>Timecmp\<close> and \<open>Pricmp\<close>, scheduler.cc lines 27-33.\<close>

definition Timecmp :: "('p::linorder) Thread \<Rightarrow> 'p Thread \<Rightarrow> int" where
  "Timecmp t1 t2 = (if predictTime t1 \<ge> predictTime t2 then 1 else - 1)"

definition Pricmp :: "'p Thread \<Rightarrow> 'p Thread \<Rightarrow> int" where
  "Pricmp t1 t2 = (if priority t1 \<le> priority t2 then 1 else - 1)"

text \<open>
  Modelled from the spec: the list classes (\<open>List\<close>, \<open>SortedList\<close>, lib/list.h) are not
  among the sources. A sorted list inserts an item in front of the first element that the
  comparator puts after it, so ties keep insertion order; \<open>Append\<close> adds at the end;
  \<open>RemoveFront\<close> takes the head; \<open>Remove\<close> deletes the item.
\<close>

fun Insert :: "('a \<Rightarrow> 'a \<Rightarrow> int) \<Rightarrow> 'a \<Rightarrow> 'a list \<Rightarrow> 'a list" where
  "Insert cmp x [] = [x]"
| "Insert cmp x (y # ys) = (if cmp x y < 0 then x # y # ys else y # Insert cmp x ys)"

definition Append :: "'a \<Rightarrow> 'a list \<Rightarrow> 'a list" where
  "Append x xs = xs @ [x]"

definition Remove :: "'a \<Rightarrow> 'a list \<Rightarrow> 'a list" where
  "Remove x xs = remove1 x xs"

text \<open>The comparators act on the pointed-to thread objects.\<close>

definition cmpTime :: "('p::linorder) Kernel \<Rightarrow> tid \<Rightarrow> tid \<Rightarrow> int" where
  "cmpTime k a b = Timecmp (heap k a) (heap k b)"

definition cmpPri :: "'p Kernel \<Rightarrow> tid \<Rightarrow> tid \<Rightarrow> int" where
  "cmpPri k a b = Pricmp (heap k a) (heap k b)"



text \<open>\<open>Scheduler::aging\<close> takes the list to scan as a pointer, one of the three queues.\<close>

datatype qid = Q1 | Q2 | Q3

fun queue :: "qid \<Rightarrow> 'p Kernel \<Rightarrow> tid list" where
  "queue Q1 k = L1 k"
| "queue Q2 k = L2 k"
| "queue Q3 k = L3 k"

fun list_Remove :: "qid \<Rightarrow> tid \<Rightarrow> 'p Kernel \<Rightarrow> 'p Kernel" where
  "list_Remove Q1 t k = k\<lparr>L1 := Remove t (L1 k)\<rparr>"
| "list_Remove Q2 t k = k\<lparr>L2 := Remove t (L2 k)\<rparr>"
| "list_Remove Q3 t k = k\<lparr>L3 := Remove t (L3 k)\<rparr>"

text \<open>The body of the \<open>for\<close> loop of \<open>Scheduler::aging\<close>, lines 118-150, for one
  \<open>iterThread\<close>. The debug output is left out.\<close>

definition aging_body :: "qid \<Rightarrow> tid \<Rightarrow> ('p::linorder) Kernel \<Rightarrow> 'p Kernel" where
  "aging_body q iterThread k =
    (let total = totalTicks k - ReadyStartTime (heap k iterThread)
                   + TimeInReadyQueue (heap k iterThread);
         oldPriority = priority (heap k iterThread)
     in
       if (oldPriority \<ge> 0 \<and> oldPriority < 150) \<and> total \<ge> 1500 then
         let k1 = k\<lparr>heap := (heap k)(iterThread :=
                      (heap k iterThread)\<lparr>TimeInReadyQueue := total - 1500\<rparr>)\<rparr>;
             k2 = k1\<lparr>heap := (heap k1)(iterThread :=
                      (heap k1 iterThread)\<lparr>ReadyStartTime := totalTicks k1\<rparr>)\<rparr>;
             k3 = k2\<lparr>heap := (heap k2)(iterThread :=
                      (heap k2 iterThread)\<lparr>priority :=
                         (if oldPriority + 10 > 149 then 149 else oldPriority + 10)\<rparr>)\<rparr>;
             k4 = list_Remove q iterThread k3
         in
           if priority (heap k4 iterThread) \<ge> 100 then
             let k5 = k4\<lparr>L1 := Insert (cmpTime k4) iterThread (L1 k4)\<rparr> in
               if priority (heap k5 (currentThread k5)) < 100
                 then k5\<lparr>preemptive := True\<rparr>
               else if priority (heap k5 (currentThread k5)) \<ge> 100
                       \<and> predictTime (heap k5 (currentThread k5))
                           > predictTime (heap k5 iterThread)
                 then k5\<lparr>preemptive := True\<rparr>
               else k5
           else if priority (heap k4 iterThread) \<ge> 50 then
             let k5 = k4\<lparr>L2 := Insert (cmpPri k4) iterThread (L2 k4)\<rparr> in
               if priority (heap k5 (currentThread k5)) < 50
                 then k5\<lparr>preemptive := True\<rparr>
               else k5
           else k4\<lparr>L3 := Append iterThread (L3 k4)\<rparr>
       else k)"




text \<open>\<open>Scheduler::FindNextToRun\<close>, lines 162-183; \<open>None\<close> is the NULL pointer.\<close>

definition stampWait :: "tid \<Rightarrow> 'p Kernel \<Rightarrow> 'p Kernel" where
  "stampWait t k = k\<lparr>heap := (heap k)(t := (heap k t)\<lparr>TimeInReadyQueue :=
      TimeInReadyQueue (heap k t) + (totalTicks k - ReadyStartTime (heap k t))\<rparr>)\<rparr>"

definition FindNextToRun :: "'p Kernel \<Rightarrow> error + (tid option \<times> 'p Kernel)" where
  "FindNextToRun k =
    (if intLevel k \<noteq> IntOff then Inl AssertionFailed
     else if L1 k \<noteq> [] then
       Inr (Some (hd (L1 k)), stampWait (hd (L1 k)) (k\<lparr>L1 := tl (L1 k)\<rparr>))
     else if L2 k \<noteq> [] then
       Inr (Some (hd (L2 k)), stampWait (hd (L2 k)) (k\<lparr>L2 := tl (L2 k)\<rparr>))
     else if L3 k \<noteq> [] then
       Inr (Some (hd (L3 k)), stampWait (hd (L3 k)) (k\<lparr>L3 := tl (L3 k)\<rparr>))
     else Inr (None, k))"




text \<open>What one aging promotion does to a thread object, as the claim words it.\<close>

definition waited :: "'p Kernel \<Rightarrow> tid \<Rightarrow> int" where
  "waited k t = totalTicks k - ReadyStartTime (heap k t) + TimeInReadyQueue (heap k t)"

definition due :: "'p Kernel \<Rightarrow> tid \<Rightarrow> bool" where
  "due k t \<longleftrightarrow> 0 \<le> priority (heap k t) \<and> priority (heap k t) < 150 \<and> waited k t \<ge> 1500"

definition promoted :: "'p Kernel \<Rightarrow> tid \<Rightarrow> 'p Thread" where
  "promoted k t = (heap k t)\<lparr>TimeInReadyQueue := waited k t - 1500,
                             ReadyStartTime := totalTicks k,
                             priority := min 149 (priority (heap k t) + 10)\<rparr>"

text \<open>The ready queue that \<open>list->Remove(iterThread)\<close> leaves behind.\<close>

definition without :: "qid \<Rightarrow> tid \<Rightarrow> qid \<Rightarrow> 'p Kernel \<Rightarrow> tid list" where
  "without q t q' k = (if q = q' then Remove t (queue q' k) else queue q' k)"

text \<open>A small scheduler state: thread 2 (priority 95) and thread 1 (priority 60) wait in
  L2, thread 3 in L3; thread 0, of priority 0, is running.\<close>

definition kernel_example :: "int Kernel" where
  "kernel_example = \<lparr>L1 = [], L2 = [2, 1], L3 = [3],
         heap = (\<lambda>_. \<lparr>priority = 0, predictTime = 0, ReadyStartTime = 0, TimeInReadyQueue = 0, status = READY\<rparr>)
            (1 := \<lparr>priority = 60, predictTime = 5, ReadyStartTime = 1000, TimeInReadyQueue = 7, status = READY\<rparr>,
             2 := \<lparr>priority = 95, predictTime = 9, ReadyStartTime = 40, TimeInReadyQueue = 3, status = READY\<rparr>,
             3 := \<lparr>priority = 10, predictTime = 1, ReadyStartTime = 0, TimeInReadyQueue = 0, status = READY\<rparr>),
         currentThread = 0, totalTicks = 1600, preemptive = False, intLevel = IntOff\<rparr>"

section \<open>File system facade (NachOS-4.0_MP4/code/filesys/filesys.cc)\<close>

text \<open>
  Modelled from the spec: the directory class (directory.cc) and the open-file class
  (openfile.cc) are not among the sources. A directory is a table of entries; \<open>Find\<close> is a
  linear scan over the entries in use that compares names byte for byte and gives the
  entry's sector, or -1. An open file is a handle on the sector of its file header; an
  entry in use is taken to name a sector of the disk, so that opening it succeeds.
\<close>

record DirectoryEntry =
  inUse :: bool
  name :: string
  sector :: int
  isDirectory :: bool

type_synonym Directory = "DirectoryEntry list"

datatype OpenFile = OpenFile (hdrSector: int)

fun Find :: "Directory \<Rightarrow> string \<Rightarrow> int" where
  "Find [] n = - 1"
| "Find (e # es) n = (if inUse e \<and> name e = n then sector e else Find es n)"

text \<open>\<open>Find\<close> on a \<open>char *\<close> that may be NULL: comparing a name in use with NULL
  dereferences the null pointer.\<close>

definition Find_ptr :: "Directory \<Rightarrow> string option \<Rightarrow> error + int" where
  "Find_ptr d p =
     (case p of
        Some n \<Rightarrow> Inr (Find d n)
      | None \<Rightarrow> if list_ex inUse d then Inl NullPointer else Inr (- 1))"

text \<open>\<open>NumDirEntries\<close>, filesys.cc line 65. \<open>new Directory(NumDirEntries)\<close> is a table with
  no entry in use ("The directory at this point is completely empty", filesys.cc 120).\<close>

definition NumDirEntries :: nat where
  "NumDirEntries = 64"

definition newDirectory :: "nat \<Rightarrow> Directory" where
  "newDirectory n = replicate n \<lparr>inUse = False, name = [], sector = 0, isDirectory = False\<rparr>"

text \<open>
  The state of the file system object: the open root directory file, the single
  \<open>fileDescriptor\<close> slot of the system-call path (\<open>None\<close> is NULL), and the disk, seen
  through \<open>Directory::FetchFrom\<close>: \<open>dirContents s\<close> is the directory table that is read from
  the file whose header is in sector \<open>s\<close>.
\<close>

record FileSystem =
  directoryFile :: OpenFile
  fileDescriptor :: "OpenFile option"
  dirContents :: "int \<Rightarrow> Directory"

definition FetchFrom_dir :: "FileSystem \<Rightarrow> OpenFile \<Rightarrow> Directory" where
  "FetchFrom_dir fs f = dirContents fs (hdrSector f)"

text \<open>
  \<open>strtok(name, "/")\<close> and the following \<open>strtok(NULL, "/")\<close> calls give the maximal
  runs of characters other than \<open>/\<close>, in order, and then NULL. \<open>strtok_all\<close> lists the
  tokens; the first argument of \<open>tok\<close> is the token being read.
\<close>

fun tok :: "string \<Rightarrow> string \<Rightarrow> string list" where
  "tok cur [] = (if cur = [] then [] else [cur])"
| "tok cur (c # cs) =
     (if c = CHR ''/'' then (if cur = [] then tok [] cs else cur # tok [] cs)
      else tok (cur @ [c]) cs)"

definition strtok_all :: "string \<Rightarrow> string list" where
  "strtok_all path = tok [] path"

text \<open>\<open>FileSystem::Open\<close>, filesys.cc 319-341. The loop runs over the tokens; its state is
  \<open>directoryObj\<close>; \<open>path\<close> is the argument \<open>name\<close>. The result is a pointer: \<open>None\<close> would be NULL.\<close>

fun Open_loop :: "FileSystem \<Rightarrow> OpenFile \<Rightarrow> string list \<Rightarrow> OpenFile" where
  "Open_loop fs directoryObj [] = directoryObj"
| "Open_loop fs directoryObj (tmpName # rest) =
     (let directory = FetchFrom_dir fs directoryObj;
          sector = Find directory tmpName
      in if sector = - 1 then directoryObj
         else Open_loop fs (OpenFile sector) rest)"

definition Open :: "FileSystem \<Rightarrow> string \<Rightarrow> OpenFile option" where
  "Open fs path = Some (Open_loop fs (directoryFile fs) (strtok_all path))"

text \<open>\<open>FileSystem::OpenAFile\<close>, filesys.cc 344-372. The loop state is \<open>directory\<close>, which
  starts as a new, empty table (it is not fetched from the root before the loop); the loop
  gives the value of \<open>tmpName\<close> at its exit.\<close>

fun OpenAFile_loop :: "FileSystem \<Rightarrow> Directory \<Rightarrow> string list \<Rightarrow> string option" where
  "OpenAFile_loop fs directory [] = None"
| "OpenAFile_loop fs directory (tmpName # rest) =
     (let sector = Find directory tmpName
      in if sector = - 1 then Some tmpName
         else OpenAFile_loop fs (FetchFrom_dir fs (OpenFile sector)) rest)"

definition OpenAFile :: "FileSystem \<Rightarrow> string \<Rightarrow> error + (int \<times> FileSystem)" where
  "OpenAFile fs path =
     (let directory = newDirectory NumDirEntries;
          tmpName = OpenAFile_loop fs directory (strtok_all path);
          directory' = FetchFrom_dir fs (directoryFile fs)
      in case Find_ptr directory' tmpName of
           Inl e \<Rightarrow> Inl e
         | Inr found \<Rightarrow>
             let sector = found
             in if sector \<ge> 0
                then Inr (sector, fs\<lparr>fileDescriptor := Some (OpenFile sector)\<rparr>)
                else Inr (- 1, fs))"

text \<open>\<open>SysOpen\<close>, ksyscall.h 28-30.\<close>

definition SysOpen :: "FileSystem \<Rightarrow> string \<Rightarrow> error + (int \<times> FileSystem)" where
  "SysOpen fs path = OpenAFile fs path"

text \<open>Walking a list of path components from the directory whose header is in sector
  \<open>s\<close>: the sector reached, or \<open>None\<close> when a component is not found.\<close>

fun reached :: "FileSystem \<Rightarrow> int \<Rightarrow> string list \<Rightarrow> int option" where
  "reached fs s [] = Some s"
| "reached fs s (c # cs) =
     (if Find (dirContents fs s) c = - 1 then None
      else reached fs (Find (dirContents fs s) c) cs)"

text \<open>A small disk: the root directory (header in sector 1) holds the directory \<open>a\<close>
  (header in sector 2), which holds the file \<open>b\<close> (header in sector 3).\<close>

definition fs_example :: FileSystem where
  "fs_example =
     \<lparr>directoryFile = OpenFile 1, fileDescriptor = None,
      dirContents = (\<lambda>_. [])
        (1 := [\<lparr>inUse = True, name = ''a'', sector = 2, isDirectory = True\<rparr>],
         2 := [\<lparr>inUse = True, name = ''b'', sector = 3, isDirectory = False\<rparr>])\<rparr>"

section \<open>File header (NachOS-4.0_MP4/code/filesys/filehdr.cc)\<close>

text \<open>
  \<open>SectorSize\<close> and \<open>NumDirect\<close> are declared in headers that are not among the sources;
  they are parameters of every function here. C \<open>int\<close>s are unbounded integers; \<open>/\<close> and
  \<open>%\<close> are C's truncating division and remainder (\<open>sdiv\<close>, \<open>smod\<close>).
\<close>

text \<open>The macros \<open>Level2\<close>, \<open>Level3\<close>, \<open>Level4\<close>, filehdr.cc 32-34.\<close>

definition Level2 :: "int \<Rightarrow> int \<Rightarrow> int" where
  "Level2 SectorSize NumDirect = NumDirect * SectorSize"

definition Level3 :: "int \<Rightarrow> int \<Rightarrow> int" where
  "Level3 SectorSize NumDirect = NumDirect * NumDirect * SectorSize"

definition Level4 :: "int \<Rightarrow> int \<Rightarrow> int" where
  "Level4 SectorSize NumDirect = NumDirect * NumDirect * NumDirect * SectorSize"

text \<open>
  Modelled from the spec: \<open>divRoundUp\<close> and \<open>divRoundDown\<close> (lib/utility.h) are not among
  the sources. The spec gives \<open>numSectors = ceil(numBytes/SectorSize)\<close> and
  \<open>which = offset / nBytes\<close>.
\<close>

definition divRoundUp :: "int \<Rightarrow> int \<Rightarrow> int" where
  "divRoundUp n s = - ((- n) div s)"

definition divRoundDown :: "int \<Rightarrow> int \<Rightarrow> int" where
  "divRoundDown n s = n sdiv s"

text \<open>
  Modelled from the spec: the bitmap class (lib/bitmap.cc) is not among the sources. The
  free map has one bit per sector, set when the sector is allocated. \<open>FindAndSet\<close> gives
  the first clear bit and sets it, or -1 when no bit is clear; \<open>Test\<close> and \<open>Clear\<close> assert
  that the bit number is in range.
\<close>

type_synonym Bitmap = "bool list"

definition NumClear :: "Bitmap \<Rightarrow> int" where
  "NumClear m = int (length (filter Not m))"

fun FindClear :: "Bitmap \<Rightarrow> nat \<Rightarrow> int" where
  "FindClear [] i = - 1"
| "FindClear (b # bs) i = (if b then FindClear bs (Suc i) else int i)"

definition FindAndSet :: "Bitmap \<Rightarrow> int \<times> Bitmap" where
  "FindAndSet m =
     (let which = FindClear m 0
      in if which < 0 then (- 1, m) else (which, m[nat which := True]))"

definition Test :: "Bitmap \<Rightarrow> int \<Rightarrow> error + bool" where
  "Test m which =
     (if 0 \<le> which \<and> which < int (length m) then Inr (m ! nat which) else Inl AssertionFailed)"

definition Clear :: "Bitmap \<Rightarrow> int \<Rightarrow> error + Bitmap" where
  "Clear m which =
     (if 0 \<le> which \<and> which < int (length m) then Inr (m[nat which := False])
      else Inl AssertionFailed)"

text \<open>The file header record; \<open>FileHeader::FileHeader\<close>, filehdr.cc 43-48, fills it with
  -1. The array \<open>dataSectors\<close> has \<open>NumDirect\<close> elements.\<close>

record FileHeader =
  numBytes :: int
  numSectors :: int
  dataSectors :: "int list"

definition newFileHeader :: "int \<Rightarrow> FileHeader" where
  "newFileHeader NumDirect =
     \<lparr>numBytes = - 1, numSectors = - 1, dataSectors = replicate (nat NumDirect) (- 1)\<rparr>"

text \<open>
  Modelled from the spec: the disk (synchdisk.cc, disk.cc) is not among the sources. A
  disk is its sectors, each seen as the file header that \<open>FetchFrom\<close> would read from it;
  a sector number outside the disk is a precondition violation (assert).
  \<open>FileHeader::FetchFrom\<close> and \<open>FileHeader::WriteBack\<close>, filehdr.cc 163-196, read and
  write one sector.
\<close>

type_synonym Disk = "FileHeader list"

definition FetchFrom :: "Disk \<Rightarrow> int \<Rightarrow> error + FileHeader" where
  "FetchFrom disk sec =
     (if 0 \<le> sec \<and> sec < int (length disk) then Inr (disk ! nat sec) else Inl AssertionFailed)"

definition WriteBack :: "FileHeader \<Rightarrow> int \<Rightarrow> Disk \<Rightarrow> error + Disk" where
  "WriteBack hdr sec disk =
     (if 0 \<le> sec \<and> sec < int (length disk) then Inr (disk[nat sec := hdr])
      else Inl AssertionFailed)"

text \<open>A write to \<open>dataSectors[i]\<close>; an index outside the array is undefined behaviour in
  C++ and an error here.\<close>

definition setDataSector :: "FileHeader \<Rightarrow> int \<Rightarrow> int \<Rightarrow> error + FileHeader" where
  "setDataSector hdr i v =
     (if 0 \<le> i \<and> i < int (length (dataSectors hdr))
      then Inr (hdr\<lparr>dataSectors := (dataSectors hdr)[nat i := v]\<rparr>)
      else Inl OutOfBounds)"

definition getDataSector :: "FileHeader \<Rightarrow> int \<Rightarrow> error + int" where
  "getDataSector hdr i =
     (if 0 \<le> i \<and> i < int (length (dataSectors hdr)) then Inr (dataSectors hdr ! nat i)
      else Inl OutOfBounds)"

text \<open>The direct case of \<open>Allocate\<close>, the \<open>for\<close> loop of filehdr.cc 116-122; the first
  argument counts the iterations left, \<open>numSectors - i\<close>.\<close>

fun Allocate_direct :: "nat \<Rightarrow> int \<Rightarrow> FileHeader \<Rightarrow> Bitmap \<Rightarrow> error + (FileHeader \<times> Bitmap)" where
  "Allocate_direct 0 i hdr freeMap = Inr (hdr, freeMap)"
| "Allocate_direct (Suc left) i hdr freeMap =
     (case FindAndSet freeMap of (found, freeMap') \<Rightarrow>
        (case setDataSector hdr i found of
           Inl e \<Rightarrow> Inl e
         | Inr hdr' \<Rightarrow>
             if \<not> found \<ge> 0 then Inl AssertionFailed
             else Allocate_direct left (i + 1) hdr' freeMap'))"

text \<open>
  \<open>FileHeader::Allocate\<close>, filehdr.cc 73-126, and its \<open>while\<close> loop (98-112). The first
  argument is fuel: each call and each loop iteration uses one unit, and \<open>None\<close> means
  that the fuel ran out. The result of a call is the returned flag, the header, the free
  map and the disk. The return value of the recursive call is dropped, as in the source.
\<close>

fun Allocate :: "nat \<Rightarrow> int \<Rightarrow> int \<Rightarrow> FileHeader \<Rightarrow> Bitmap \<Rightarrow> Disk \<Rightarrow> int
                  \<Rightarrow> (error + (bool \<times> FileHeader \<times> Bitmap \<times> Disk)) option"
  and Allocate_loop :: "nat \<Rightarrow> int \<Rightarrow> int \<Rightarrow> int \<Rightarrow> int \<Rightarrow> FileHeader \<Rightarrow> Bitmap \<Rightarrow> Disk \<Rightarrow> int
                  \<Rightarrow> (error + (FileHeader \<times> Bitmap \<times> Disk)) option"
where
  "Allocate 0 SectorSize NumDirect hdr freeMap disk fileSize = None"
| "Allocate (Suc fuel) SectorSize NumDirect hdr freeMap disk fileSize =
     (let hdr1 = hdr\<lparr>numBytes := fileSize\<rparr>;
          hdr2 = hdr1\<lparr>numSectors := divRoundUp fileSize SectorSize\<rparr>
      in
        if NumClear freeMap < numSectors hdr2 then Some (Inr (False, hdr2, freeMap, disk))
        else if fileSize > Level2 SectorSize NumDirect then
          let bound =
               (if fileSize > Level4 SectorSize NumDirect then Level4 SectorSize NumDirect
                else if fileSize > Level3 SectorSize NumDirect then Level3 SectorSize NumDirect
                else Level2 SectorSize NumDirect)
          in
            case Allocate_loop fuel SectorSize NumDirect bound 0 hdr2 freeMap disk fileSize of
              None \<Rightarrow> None
            | Some (Inl e) \<Rightarrow> Some (Inl e)
            | Some (Inr (hdr3, freeMap', disk')) \<Rightarrow> Some (Inr (True, hdr3, freeMap', disk'))
        else
          case Allocate_direct (nat (numSectors hdr2)) 0 hdr2 freeMap of
            Inl e \<Rightarrow> Some (Inl e)
          | Inr (hdr3, freeMap') \<Rightarrow> Some (Inr (True, hdr3, freeMap', disk)))"
| "Allocate_loop 0 SectorSize NumDirect bound i hdr freeMap disk fileSize = None"
| "Allocate_loop (Suc fuel) SectorSize NumDirect bound i hdr freeMap disk fileSize =
     (if fileSize > 0 then
        case FindAndSet freeMap of (found, freeMap1) \<Rightarrow>
          (case setDataSector hdr i found of
             Inl e \<Rightarrow> Some (Inl e)
           | Inr hdr' \<Rightarrow>
               if \<not> found \<ge> 0 then Some (Inl AssertionFailed)
               else
                 case Allocate fuel SectorSize NumDirect (newFileHeader NumDirect) freeMap1 disk
                        (if fileSize > bound then bound else fileSize) of
                   None \<Rightarrow> None
                 | Some (Inl e) \<Rightarrow> Some (Inl e)
                 | Some (Inr (ok, subheader, freeMap2, disk2)) \<Rightarrow>
                     (case WriteBack subheader found disk2 of
                        Inl e \<Rightarrow> Some (Inl e)
                      | Inr disk3 \<Rightarrow>
                          Allocate_loop fuel SectorSize NumDirect bound (i + 1) hdr' freeMap2 disk3
                            (fileSize - bound)))
      else Some (Inr (hdr, freeMap, disk)))"

text \<open>The direct case of \<open>Deallocate\<close>, filehdr.cc 148-151.\<close>

fun Deallocate_direct :: "nat \<Rightarrow> int \<Rightarrow> FileHeader \<Rightarrow> Bitmap \<Rightarrow> error + Bitmap" where
  "Deallocate_direct 0 i hdr freeMap = Inr freeMap"
| "Deallocate_direct (Suc left) i hdr freeMap =
     (case getDataSector hdr i of
        Inl e \<Rightarrow> Inl e
      | Inr s \<Rightarrow>
          (case Test freeMap s of
             Inl e \<Rightarrow> Inl e
           | Inr marked \<Rightarrow>
               if \<not> marked then Inl AssertionFailed
               else (case Clear freeMap s of
                       Inl e \<Rightarrow> Inl e
                     | Inr freeMap' \<Rightarrow> Deallocate_direct left (i + 1) hdr freeMap')))"

text \<open>\<open>FileHeader::Deallocate\<close>, filehdr.cc 135-154, with fuel as for \<open>Allocate\<close>; the
  loop of the indirect case runs \<open>round - i\<close> more times.\<close>

fun Deallocate :: "nat \<Rightarrow> int \<Rightarrow> int \<Rightarrow> Disk \<Rightarrow> FileHeader \<Rightarrow> Bitmap \<Rightarrow> (error + Bitmap) option"
  and Deallocate_loop :: "nat \<Rightarrow> int \<Rightarrow> int \<Rightarrow> Disk \<Rightarrow> FileHeader \<Rightarrow> nat \<Rightarrow> int \<Rightarrow> Bitmap
                  \<Rightarrow> (error + Bitmap) option"
where
  "Deallocate 0 SectorSize NumDirect disk hdr freeMap = None"
| "Deallocate (Suc fuel) SectorSize NumDirect disk hdr freeMap =
     (if numBytes hdr > Level2 SectorSize NumDirect then
        let round = divRoundUp (numSectors hdr) NumDirect
        in Deallocate_loop fuel SectorSize NumDirect disk hdr (nat round) 0 freeMap
      else Some (Deallocate_direct (nat (numSectors hdr)) 0 hdr freeMap))"
| "Deallocate_loop 0 SectorSize NumDirect disk hdr left i freeMap = None"
| "Deallocate_loop (Suc fuel) SectorSize NumDirect disk hdr 0 i freeMap = Some (Inr freeMap)"
| "Deallocate_loop (Suc fuel) SectorSize NumDirect disk hdr (Suc left) i freeMap =
     (case getDataSector hdr i of
        Inl e \<Rightarrow> Some (Inl e)
      | Inr s \<Rightarrow>
          (case FetchFrom disk s of
             Inl e \<Rightarrow> Some (Inl e)
           | Inr subhdr \<Rightarrow>
               (case Deallocate fuel SectorSize NumDirect disk subhdr freeMap of
                  None \<Rightarrow> None
                | Some (Inl e) \<Rightarrow> Some (Inl e)
                | Some (Inr freeMap') \<Rightarrow>
                    Deallocate_loop fuel SectorSize NumDirect disk hdr left (i + 1) freeMap')))"

text \<open>\<open>FileHeader::ByteToSector\<close>, filehdr.cc 208-230, with fuel.\<close>

fun ByteToSector :: "nat \<Rightarrow> int \<Rightarrow> int \<Rightarrow> Disk \<Rightarrow> FileHeader \<Rightarrow> int \<Rightarrow> (error + int) option" where
  "ByteToSector 0 SectorSize NumDirect disk hdr offset = None"
| "ByteToSector (Suc fuel) SectorSize NumDirect disk hdr offset =
     (if numBytes hdr > Level2 SectorSize NumDirect then
        let nBytes =
             (if numBytes hdr > Level4 SectorSize NumDirect then Level4 SectorSize NumDirect
              else if numBytes hdr > Level3 SectorSize NumDirect then Level3 SectorSize NumDirect
              else Level2 SectorSize NumDirect);
            which = divRoundDown offset nBytes;
            pos = offset smod nBytes
        in case getDataSector hdr which of
             Inl e \<Rightarrow> Some (Inl e)
           | Inr s \<Rightarrow>
               (case FetchFrom disk s of
                  Inl e \<Rightarrow> Some (Inl e)
                | Inr subheader \<Rightarrow> ByteToSector fuel SectorSize NumDirect disk subheader pos)
      else Some (getDataSector hdr (offset sdiv SectorSize)))"

text \<open>A disk of 40 sectors and a free map on which sectors 0 and 1 are taken.\<close>

definition disk_example :: Disk where
  "disk_example = replicate 40 (newFileHeader 30)"

definition freeMap_example :: "nat \<Rightarrow> Bitmap" where
  "freeMap_example n = [True, True] @ replicate (n - 2) False"

text \<open>\<open>Allocate\<close> on a new header followed by \<open>Deallocate\<close> of that header, as
  \<open>FileSystem::Create\<close> and \<open>FileSystem::Remove\<close> run them, and \<open>Allocate\<close> followed by
  \<open>ByteToSector\<close>, as a read of the new file runs them. Both go on only when \<open>Allocate\<close>
  returned TRUE.\<close>

definition Allocate_Deallocate ::
    "nat \<Rightarrow> int \<Rightarrow> int \<Rightarrow> Bitmap \<Rightarrow> Disk \<Rightarrow> int \<Rightarrow> (error + Bitmap) option" where
  "Allocate_Deallocate fuel SectorSize NumDirect freeMap disk fileSize =
     (case Allocate fuel SectorSize NumDirect (newFileHeader NumDirect) freeMap disk fileSize of
        Some (Inr (True, hdr, freeMap', disk')) \<Rightarrow>
          Deallocate fuel SectorSize NumDirect disk' hdr freeMap'
      | Some (Inr (False, hdr, freeMap', disk')) \<Rightarrow> Some (Inr freeMap')
      | Some (Inl e) \<Rightarrow> Some (Inl e)
      | None \<Rightarrow> None)"

definition Allocate_ByteToSector ::
    "nat \<Rightarrow> int \<Rightarrow> int \<Rightarrow> Bitmap \<Rightarrow> Disk \<Rightarrow> int \<Rightarrow> int \<Rightarrow> (error + int) option" where
  "Allocate_ByteToSector fuel SectorSize NumDirect freeMap disk fileSize offset =
     (case Allocate fuel SectorSize NumDirect (newFileHeader NumDirect) freeMap disk fileSize of
        Some (Inr (True, hdr, freeMap', disk')) \<Rightarrow>
          ByteToSector fuel SectorSize NumDirect disk' hdr offset
      | Some (Inr (False, hdr, freeMap', disk')) \<Rightarrow> Some (Inl AssertionFailed)
      | Some (Inl e) \<Rightarrow> Some (Inl e)
      | None \<Rightarrow> None)"

section \<open>Properties of the scheduler\<close>

subsection \<open>Facts about the list operations and the body of the aging loop\<close>

lemma set_Insert [simp]: "set (Insert cmp x xs) = insert x (set xs)"
  by (induction xs) auto

lemma distinct_Insert [simp]: "distinct (Insert cmp x xs) \<longleftrightarrow> x \<notin> set xs \<and> distinct xs"
  by (induction xs) auto

lemma list_Remove_fields [simp]:
  "heap (list_Remove q t k) = heap k"
  "currentThread (list_Remove q t k) = currentThread k"
  "preemptive (list_Remove q t k) = preemptive k"
  "totalTicks (list_Remove q t k) = totalTicks k"
  "intLevel (list_Remove q t k) = intLevel k"
  by (cases q; simp)+


lemma list_Remove_queues [simp]:
  "L1 (list_Remove q t k) = without q t Q1 k"
  "L2 (list_Remove q t k) = without q t Q2 k"
  "L3 (list_Remove q t k) = without q t Q3 k"
  by (cases q; simp add: without_def)+

lemma without_upd [simp]:
  "without q t q' (k\<lparr>heap := h\<rparr>) = without q t q' k"
  by (cases q'; simp add: without_def)

lemma cmp_list_Remove [simp]:
  "cmpTime (list_Remove q t k) = cmpTime k"
  "cmpPri (list_Remove q t k) = cmpPri k"
  by (intro ext, simp add: cmpTime_def cmpPri_def)+

lemma aging_body_due:
  assumes "due k t"
  shows "heap (aging_body q t k) = (heap k)(t := promoted k t)"
    and "L1 (aging_body q t k) =
          (if 100 \<le> priority (promoted k t)
           then Insert (cmpTime (k\<lparr>heap := (heap k)(t := promoted k t)\<rparr>)) t (without q t Q1 k)
           else without q t Q1 k)"
    and "L2 (aging_body q t k) =
          (if 50 \<le> priority (promoted k t) \<and> priority (promoted k t) < 100
           then Insert (cmpPri (k\<lparr>heap := (heap k)(t := promoted k t)\<rparr>)) t (without q t Q2 k)
           else without q t Q2 k)"
    and "L3 (aging_body q t k) =
          (if priority (promoted k t) < 50 then without q t Q3 k @ [t]
           else without q t Q3 k)"
proof -
  have p: "(if priority (heap k t) + 10 > 149 then 149 else priority (heap k t) + 10)
            = min 149 (priority (heap k t) + 10)"
    by (simp add: min_def)
  have d: "(priority (heap k t) \<ge> 0 \<and> priority (heap k t) < 150) \<and>
        totalTicks k - ReadyStartTime (heap k t) + TimeInReadyQueue (heap k t) \<ge> 1500"
    using assms by (simp add: due_def waited_def)
  note u = aging_body_def Let_def if_P [OF d] p
  show "heap (aging_body q t k) = (heap k)(t := promoted k t)"
    unfolding u by (simp add: promoted_def waited_def)
  show "L1 (aging_body q t k) =
          (if 100 \<le> priority (promoted k t)
           then Insert (cmpTime (k\<lparr>heap := (heap k)(t := promoted k t)\<rparr>)) t (without q t Q1 k)
           else without q t Q1 k)"
    unfolding u by (simp add: promoted_def waited_def Append_def min_less_iff_disj)
  show "L2 (aging_body q t k) =
          (if 50 \<le> priority (promoted k t) \<and> priority (promoted k t) < 100
           then Insert (cmpPri (k\<lparr>heap := (heap k)(t := promoted k t)\<rparr>)) t (without q t Q2 k)
           else without q t Q2 k)"
    unfolding u by (simp add: promoted_def waited_def Append_def min_less_iff_disj)
  show "L3 (aging_body q t k) =
          (if priority (promoted k t) < 50 then without q t Q3 k @ [t]
           else without q t Q3 k)"
    unfolding u by (simp add: promoted_def waited_def Append_def min_less_iff_disj)
qed




lemma aging_body_frame [simp]:
  "totalTicks (aging_body q t k) = totalTicks k"
  "currentThread (aging_body q t k) = currentThread k"
  "intLevel (aging_body q t k) = intLevel k"
  by (simp_all add: aging_body_def Let_def)











subsection \<open>Dispatch\<close>

text \<open>
  Claim C6. With interrupts off, \<open>FindNextToRun\<close> removes and returns the front thread of
  the first non-empty queue among L1, L2, L3 (in that order), leaves the other queues as
  they are, adds \<open>totalTicks - ReadyStartTime\<close> to the thread's \<open>TimeInReadyQueue\<close>, and
  returns NULL exactly when all three queues are empty.
\<close>

theorem FindNextToRun_front:
  assumes "intLevel k = IntOff"
  shows "\<exists>r k'. FindNextToRun k = Inr (r, k') \<and>
     (r = None \<longleftrightarrow> L1 k = [] \<and> L2 k = [] \<and> L3 k = []) \<and>
     (r = None \<longrightarrow> k' = k) \<and>
     (\<forall>t. r = Some t \<longrightarrow>
        (L1 k \<noteq> [] \<longrightarrow> t = hd (L1 k) \<and> L1 k' = tl (L1 k) \<and> L2 k' = L2 k \<and> L3 k' = L3 k) \<and>
        (L1 k = [] \<and> L2 k \<noteq> [] \<longrightarrow>
           t = hd (L2 k) \<and> L1 k' = [] \<and> L2 k' = tl (L2 k) \<and> L3 k' = L3 k) \<and>
        (L1 k = [] \<and> L2 k = [] \<longrightarrow>
           t = hd (L3 k) \<and> L1 k' = [] \<and> L2 k' = [] \<and> L3 k' = tl (L3 k)) \<and>
        heap k' = (heap k)(t := (heap k t)\<lparr>TimeInReadyQueue :=
            TimeInReadyQueue (heap k t) + (totalTicks k - ReadyStartTime (heap k t))\<rparr>))"
  using assms by (simp add: FindNextToRun_def stampWait_def)

theorem FindNextToRun_front_witness:
  "intLevel kernel_example = IntOff \<and>
   (\<exists>k'. FindNextToRun kernel_example = Inr (Some 2, k') \<and> L2 k' = [1] \<and> L3 k' = [3] \<and>
      TimeInReadyQueue (heap k' 2) = 1563)"
  using FindNextToRun_front [of kernel_example] by (auto simp add: kernel_example_def)

subsection \<open>Preemption signalling on promotion\<close>

text \<open>
  Claim C7. When the aging loop promotes a thread \<open>t\<close>: if the new priority is at least
  100 the thread is put on L1 and the preemption flag becomes set when the current thread's
  priority is below 100, or is at least 100 with a larger \<open>predictTime\<close> than \<open>t\<close>'s; if
  the new priority is in 50..99 the thread is put on L2 and the flag becomes set when the
  current thread's priority is below 50; otherwise the thread is put on L3 and the flag
  keeps its value. The flag is never cleared.
\<close>

theorem aging_preempt_flag:
  assumes "due k t"
  shows "let k' = aging_body q t k; cur = heap k' (currentThread k'); new = heap k' t in
     (priority new \<ge> 100 \<longrightarrow> t \<in> set (L1 k') \<and>
        preemptive k' = (preemptive k \<or> priority cur < 100 \<or>
                          (priority cur \<ge> 100 \<and> predictTime cur > predictTime new))) \<and>
     (priority new < 100 \<and> priority new \<ge> 50 \<longrightarrow> t \<in> set (L2 k') \<and>
        preemptive k' = (preemptive k \<or> priority cur < 50)) \<and>
     (priority new < 50 \<longrightarrow> t \<in> set (L3 k') \<and> preemptive k' = preemptive k)"
  using assms
  by (simp add: aging_body_def due_def waited_def Let_def Append_def)

theorem aging_preempt_flag_witness:
  "due kernel_example 2 \<and>
   priority (heap (aging_body Q2 2 kernel_example) 2) = 105 \<and>
   2 \<in> set (L1 (aging_body Q2 2 kernel_example)) \<and>
   preemptive (aging_body Q2 2 kernel_example)"
proof -
  have d: "due kernel_example 2"
    by (simp add: due_def waited_def kernel_example_def)
  have h: "heap (aging_body Q2 2 kernel_example)
             = (heap kernel_example)(2 := promoted kernel_example 2)"
    by (rule aging_body_due(1) [OF d])
  have p: "priority (promoted kernel_example 2) = 105"
    by (simp add: promoted_def kernel_example_def)
  have c: "priority (heap kernel_example 0) = 0" "currentThread kernel_example = 0"
    by (simp_all add: kernel_example_def)
  show ?thesis
    using aging_preempt_flag [OF d, of Q2] d
    by (simp add: Let_def h p c)
qed

subsection \<open>Aging\<close>



subsection \<open>The ready-queue invariant\<close>



section \<open>Properties of the file system facade\<close>

lemma Open_loop_reached:
  assumes "reached fs (hdrSector f) pre = Some s" and "Find (dirContents fs s) c = - 1"
  shows "Open_loop fs f (pre @ c # rest) = OpenFile s"
  using assms
proof (induction pre arbitrary: f)
  case Nil
  then show ?case by (cases f) (simp add: FetchFrom_dir_def)
next
  case (Cons a pre)
  then show ?case
    by (simp add: FetchFrom_dir_def Let_def split: if_splits)
qed

text \<open>
  Claim C10. \<open>FileSystem::Open\<close> never returns NULL. When the components \<open>pre\<close> of the
  path are found one after the other from the root and the next component \<open>c\<close> is not in
  the directory reached, \<open>Open\<close> returns the open file of that directory (of the last
  component found); when the first component is missing it returns the root directory file.
\<close>

theorem Open_never_NULL:
  "Open fs path \<noteq> None \<and>
   (\<forall>pre c rest s.
      strtok_all path = pre @ c # rest \<and>
      reached fs (hdrSector (directoryFile fs)) pre = Some s \<and>
      Find (dirContents fs s) c = - 1
      \<longrightarrow> Open fs path = Some (OpenFile s)) \<and>
   (\<forall>c rest.
      strtok_all path = c # rest \<and>
      Find (dirContents fs (hdrSector (directoryFile fs))) c = - 1
      \<longrightarrow> Open fs path = Some (directoryFile fs))"
proof (intro conjI allI impI)
  show "Open fs path \<noteq> None" by (simp add: Open_def)
next
  fix pre c rest s
  assume "strtok_all path = pre @ c # rest \<and>
      reached fs (hdrSector (directoryFile fs)) pre = Some s \<and>
      Find (dirContents fs s) c = - 1"
  then show "Open fs path = Some (OpenFile s)"
    by (simp add: Open_def Open_loop_reached)
next
  fix c rest
  assume "strtok_all path = c # rest \<and>
      Find (dirContents fs (hdrSector (directoryFile fs))) c = - 1"
  then show "Open fs path = Some (directoryFile fs)"
    by (simp add: Open_def FetchFrom_dir_def)
qed

theorem Open_never_NULL_witness:
  "strtok_all ''a/x/b'' = [''a''] @ ''x'' # [''b''] \<and>
   reached fs_example (hdrSector (directoryFile fs_example)) [''a''] = Some 2 \<and>
   Find (dirContents fs_example 2) ''x'' = - 1 \<and>
   Open fs_example ''a/x/b'' = Some (OpenFile 2)"
proof -
  have a: "strtok_all ''a/x/b'' = [''a''] @ ''x'' # [''b'']"
    by (simp add: strtok_all_def)
  have b: "reached fs_example (hdrSector (directoryFile fs_example)) [''a''] = Some 2"
    by (simp add: fs_example_def)
  have c: "Find (dirContents fs_example 2) ''x'' = - 1"
    by (simp add: fs_example_def)
  show ?thesis
    using Open_never_NULL [of fs_example "''a/x/b''"] a b c by blast
qed

lemma Find_newDirectory: "Find (newDirectory n) c = - 1"
  by (induction n) (simp_all add: newDirectory_def)

lemma OpenAFile_first_component:
  assumes "strtok_all path = c # rest"
  shows "OpenAFile fs path =
     (if Find (dirContents fs (hdrSector (directoryFile fs))) c \<ge> 0
      then Inr (Find (dirContents fs (hdrSector (directoryFile fs))) c,
                fs\<lparr>fileDescriptor :=
                     Some (OpenFile (Find (dirContents fs (hdrSector (directoryFile fs))) c))\<rparr>)
      else Inr (- 1, fs))"
  using assms
  by (simp add: OpenAFile_def Let_def Find_newDirectory Find_ptr_def FetchFrom_dir_def)

text \<open>
  Claim C2. The claim says that \<open>OpenAFile\<close> resolves every component of the path. On the
  disk \<open>fs_example\<close> the file \<open>a/b\<close> has its header in sector 3, but \<open>SysOpen\<close> returns 2,
  the sector of the directory \<open>a\<close>, and stores a handle on it; for the absent file \<open>a/zz\<close>
  it returns 2 as well, not -1. The loop starts from an empty directory table, so it stops
  at the first component, which is then looked up in the root (lemma
  \<open>OpenAFile_first_component\<close>).
\<close>

theorem OpenAFile_stops_at_first_component:
  "reached fs_example 1 (strtok_all ''a/b'') = Some 3 \<and>
   SysOpen fs_example ''a/b'' = Inr (2, fs_example\<lparr>fileDescriptor := Some (OpenFile 2)\<rparr>) \<and>
   reached fs_example 1 (strtok_all ''a/zz'') = None \<and>
   SysOpen fs_example ''a/zz'' = Inr (2, fs_example\<lparr>fileDescriptor := Some (OpenFile 2)\<rparr>)"
proof -
  have t: "strtok_all ''a/b'' = [''a'', ''b'']" "strtok_all ''a/zz'' = [''a'', ''zz'']"
    by (simp_all add: strtok_all_def)
  have r: "Find (dirContents fs_example (hdrSector (directoryFile fs_example))) ''a'' = 2"
    by (simp add: fs_example_def)
  show ?thesis
    unfolding SysOpen_def OpenAFile_first_component [OF t(1)]
      OpenAFile_first_component [OF t(2)] r
    by (simp add: t fs_example_def)
qed

section \<open>Properties of the file header\<close>

lemma divRoundUp_ceiling:
  assumes "0 < s"
  shows "(divRoundUp n s - 1) * s < n \<and> n \<le> divRoundUp n s * s"
proof -
  have a: "(- n) div s * s \<le> - n"
    using assms by (metis mult.commute pos_mod_sign[of s "- n"] minus_mult_div_eq_mod[of "- n" s] diff_ge_0_iff_ge)
  have b: "- n < ((- n) div s + 1) * s"
    using assms by (metis mult.commute int_distrib(1) mult_1 pos_mod_bound[of s "- n"] minus_mult_div_eq_mod[of "- n" s] diff_less_eq add.commute)
  show ?thesis
    using a b by (simp add: divRoundUp_def algebra_simps)
qed

text \<open>
  Claim C5. If the free map has fewer clear bits than \<open>divRoundUp fileSize SectorSize\<close>
  (the ceiling of \<open>fileSize / SectorSize\<close>, lemma \<open>divRoundUp_ceiling\<close>), then \<open>Allocate\<close>
  returns FALSE, and the free map and the disk are as they were before the call.
\<close>

theorem Allocate_fails_without_space:
  assumes "NumClear freeMap < divRoundUp fileSize SectorSize"
  shows "Allocate (Suc fuel) SectorSize NumDirect hdr freeMap disk fileSize =
           Some (Inr (False,
                      hdr\<lparr>numBytes := fileSize, numSectors := divRoundUp fileSize SectorSize\<rparr>,
                      freeMap, disk))"
  using assms by simp

theorem Allocate_fails_without_space_witness:
  "NumClear (freeMap_example 3) < divRoundUp 500 128 \<and>
   Allocate 1 128 30 (newFileHeader 30) (freeMap_example 3) disk_example 500 =
     Some (Inr (False, (newFileHeader 30)\<lparr>numBytes := 500, numSectors := 4\<rparr>,
                freeMap_example 3, disk_example))"
proof -
  have h: "NumClear (freeMap_example 3) < divRoundUp 500 128"
    by (simp add: NumClear_def freeMap_example_def divRoundUp_def)
  have d: "divRoundUp 500 128 = 4"
    by (simp add: divRoundUp_def)
  show ?thesis
    using Allocate_fails_without_space [OF h, of 0 30 "newFileHeader 30" disk_example] h
    by (simp add: d)
qed






text \<open>
  Claim C1. The claim says that \<open>Deallocate\<close> clears every sector that \<open>Allocate\<close> claimed,
  the sectors of the sub-headers included. With \<open>SectorSize = 128\<close> and \<open>NumDirect = 30\<close>, a
  file of 3841 bytes on a free map of 40 sectors (0 and 1 taken) gets the sub-header sectors
  2 and 33 and the data sectors 3..32 and 34. \<open>Deallocate\<close> of the header clears the data
  sectors only: sectors 2 and 33 stay marked.
\<close>

theorem Deallocate_leaks_subheader_sectors:
  "Allocate_Deallocate 5 128 30 (freeMap_example 40) disk_example 3841
     = Some (Inr ((freeMap_example 40)[2 := True, 33 := True]))"
  by code_simp

text \<open>What \<open>ByteToSector\<close> does in the direct and in the indirect case.\<close>

lemma ByteToSector_direct:
  assumes "\<not> numBytes hdr > Level2 SectorSize NumDirect"
  shows "ByteToSector (Suc fuel) SectorSize NumDirect disk hdr offset =
           Some (getDataSector hdr (offset sdiv SectorSize))"
  using assms by simp

lemma ByteToSector_indirect:
  assumes "numBytes hdr > Level2 SectorSize NumDirect"
    and "nBytes = (if numBytes hdr > Level4 SectorSize NumDirect then Level4 SectorSize NumDirect
              else if numBytes hdr > Level3 SectorSize NumDirect then Level3 SectorSize NumDirect
              else Level2 SectorSize NumDirect)"
    and "getDataSector hdr (offset sdiv nBytes) = Inr s"
    and "FetchFrom disk s = Inr subheader"
  shows "ByteToSector (Suc fuel) SectorSize NumDirect disk hdr offset =
           ByteToSector fuel SectorSize NumDirect disk subheader (offset smod nBytes)"
  using assms by (simp add: Let_def divRoundDown_def)

text \<open>
  Claim C4. The claim says that \<open>ByteToSector\<close> always gives a sector claimed by
  \<open>Allocate\<close>. On a free map with 32 clear bits, \<open>Allocate\<close> of 3841 bytes (31 data
  sectors) returns TRUE although the second sub-header finds no clear bit for its data
  sector (its own \<open>Allocate\<close> returns FALSE, which the loop drops); \<open>ByteToSector 3840\<close> then
  gives the -1 that the constructor left in \<open>dataSectors[0]\<close> of that sub-header.
\<close>

theorem ByteToSector_unclaimed:
  "Allocate_ByteToSector 5 128 30 (freeMap_example 34) (take 34 disk_example) 3841 3840
     = Some (Inr (- 1))"
  by code_simp

end
